theory Spec2Isabelle
  imports Complex_Main
begin

section \<open>The monitor command of perun (src/perun/cli.py)\<close>

text \<open>
  The command \<open>monitor\<close> drives one process of a monitoring session: it rewrites
  \<open>sys.argv\<close>, resolves the devices of the process, closes the backends, starts the
  sampling subprocess when there are devices, runs the script between collective
  barriers, collects the subprocess's buffer and stores it. The model below follows the
  function statement by statement. Every call that leaves the function (a barrier, a
  process start, a storage call) is recorded as an event, in program order; the values
  the collaborators hand back (the device list, the object taken from the queue, the
  outcome of the script) are fields of the environment. Calls to \<open>log.debug\<close> have no
  influence on the control flow and are left out. The collaborators other than the script
  are taken to return: the function has no handler for their failures.
\<close>

subsection \<open>Python strings, lists and pure POSIX paths\<close>

text \<open>\<open>list.index(x)\<close>: the first position of \<open>x\<close>, \<open>None\<close> where Python raises ValueError.\<close>

fun list_index :: "'a list \<Rightarrow> 'a \<Rightarrow> nat option" where
  "list_index [] x = None"
| "list_index (y # ys) x = (if y = x then Some 0 else map_option Suc (list_index ys x))"

text \<open>\<open>str.split(sep)\<close> for a one-character separator.\<close>

fun split_sep :: "char \<Rightarrow> string \<Rightarrow> string list" where
  "split_sep sep [] = [[]]"
| "split_sep sep (c # cs) =
     (if c = sep then [] # split_sep sep cs
      else (case split_sep sep cs of
              [] \<Rightarrow> [[c]]
            | x # xs \<Rightarrow> (c # x) # xs))"

text \<open>\<open>str.rfind(c)\<close> for one character: the last position, \<open>None\<close> for Python's -1.\<close>

fun rfind :: "string \<Rightarrow> char \<Rightarrow> nat option" where
  "rfind [] c = None"
| "rfind (x # xs) c =
     (case rfind xs c of
        Some i \<Rightarrow> Some (Suc i)
      | None \<Rightarrow> if x = c then Some 0 else None)"

fun startswith :: "string \<Rightarrow> string \<Rightarrow> bool" where
  "startswith s [] = True"
| "startswith [] (p # ps) = False"
| "startswith (c # cs) (p # ps) = (c = p \<and> startswith cs ps)"

text \<open>
  \<open>str.replace(old, new)\<close>: every occurrence of \<open>old\<close>, found from left to right without
  overlap, becomes \<open>new\<close>. For an empty \<open>old\<close> Python puts \<open>new\<close> in front of every
  character and at the end.
\<close>

fun replace_from :: "string \<Rightarrow> string \<Rightarrow> string \<Rightarrow> string" where
  "replace_from [] old new = []"
| "replace_from (c # cs) old new =
     (if old \<noteq> [] \<and> startswith (c # cs) old
      then new @ replace_from (drop (length old - 1) cs) old new
      else c # replace_from cs old new)"

definition str_replace :: "string \<Rightarrow> string \<Rightarrow> string \<Rightarrow> string" where
  "str_replace s old new =
     (if old = [] then new @ concat (map (\<lambda>c. c # new) s) else replace_from s old new)"

text \<open>
  A \<open>pathlib\<close> path on a POSIX system: the root (empty, one slash or two) and the
  components after it. \<open>Path\<close> is the constructor from one string: \<open>splitroot\<close> strips the
  leading slashes, and empty components and \<open>.\<close> are dropped.
\<close>

datatype pure_path = PurePath (root: string) (parts: "string list")

definition splitroot :: "string \<Rightarrow> string \<times> string" where
  "splitroot part =
     (if part \<noteq> [] \<and> hd part = CHR ''/''
      then (let stripped_part = dropWhile (\<lambda>c. c = CHR ''/'') part
            in if length part - length stripped_part = 2
               then (''//'', stripped_part)
               else (''/'', stripped_part))
      else ([], part))"

definition Path :: "string \<Rightarrow> pure_path" where
  "Path s =
     (case splitroot s of
        (rt, rel) \<Rightarrow> PurePath rt (filter (\<lambda>x. x \<noteq> [] \<and> x \<noteq> ''.'') (split_sep CHR ''/'' rel)))"

fun join_sep :: "string list \<Rightarrow> string" where
  "join_sep [] = []"
| "join_sep [x] = x"
| "join_sep (x # y # ys) = x @ ''/'' @ join_sep (y # ys)"

text \<open>\<open>str(path)\<close>: the root and the components joined by slashes, \<open>.\<close> for the empty path.\<close>

definition str :: "pure_path \<Rightarrow> string" where
  "str p = (let s = root p @ join_sep (parts p) in if s = [] then ''.'' else s)"

text \<open>\<open>path.name\<close>: the last component, empty when there is none.\<close>

definition name :: "pure_path \<Rightarrow> string" where
  "name p = (if parts p = [] then [] else last (parts p))"

text \<open>
  \<open>path.suffix\<close>: the name from its last dot on, when that dot is neither the first nor
  the last character of the name; empty otherwise.
\<close>

definition suffix :: "pure_path \<Rightarrow> string" where
  "suffix p =
     (let nm = name p
      in case rfind nm CHR ''.'' of
           None \<Rightarrow> []
         | Some i \<Rightarrow> if 0 < i \<and> i < length nm - 1 then drop i nm else [])"

text \<open>\<open>path / key\<close> for a string key: a rooted key replaces the path, another one extends it.\<close>

definition truediv :: "pure_path \<Rightarrow> string \<Rightarrow> pure_path" where
  "truediv p key =
     (let q = Path key
      in if root q \<noteq> [] then q else PurePath (root p) (parts p @ parts q))"

subsection \<open>The environment of one process and the events of a run\<close>

text \<open>
  How the execution of the script ends. \<open>except Exception\<close> catches the first kind of
  failure only: an exception that derives from \<open>BaseException\<close> and not from
  \<open>Exception\<close> (\<open>SystemExit\<close> when the script calls \<open>sys.exit\<close>,
  \<open>KeyboardInterrupt\<close>) passes through the handler and leaves \<open>monitor\<close>. How the
  process ends then is decided outside \<open>monitor\<close> (by the argument of \<open>sys.exit\<close>, by
  click for an interrupt), so this outcome carries the exit status of the process.
\<close>

datatype workload_outcome = Completed | RaisedException | RaisedBaseException nat

type_synonym backend = string

record 'b env =
  script :: string
  frequency :: real
  outdir :: string
  format :: string
  sys_argv :: "string list"
  rank :: nat
  backends :: "backend list"
  device_ids :: "string list"
  workload :: workload_outcome
  queue_item :: "'b option"
  truthy :: "'b \<Rightarrow> bool"
  outdir_exists :: bool
  run_id :: nat

text \<open>
  \<open>sys_argv\<close> is \<open>sys.argv\<close> at entry, \<open>rank\<close> is \<open>comm.rank\<close>, \<open>backends\<close> is
  \<open>perun.backends\<close>, \<open>device_ids\<close> is what \<open>perun.getDeviceConfiguration\<close> returns,
  \<open>queue_item\<close> is what \<open>queue.get()\<close> returns (\<open>None\<close> for Python's \<open>None\<close>), \<open>truthy\<close> is
  the truth value of a \<open>LocalStorage\<close> object in \<open>if lStrg\<close> (the class is declared in
  perun.storage), \<open>outdir_exists\<close> is what \<open>outPath.exists()\<close> returns and \<open>run_id\<close> is what
  \<open>addExperimentRun\<close> returns.
\<close>

datatype 'b event =
    GetDeviceConfiguration "backend list"
  | BackendClose backend
  | QueueCreate
  | ProcessStart "string list" real
  | StartWait
  | Barrier
  | ExecScript string "string list"
  | LogError
  | StopSet
  | ProcessJoin
  | ProcessClose
  | QueueGet
  | Mkdir string
  | OpenStorage string
  | AddExperimentRun "'b option"
  | SaveDeviceData nat 'b
  | Postprocessing
  | PrintReport nat string
  | StorageClose

text \<open>
  \<open>ProcessStart ds f\<close> is \<open>perunSP.start()\<close> for the process built with the device list
  \<open>ds\<close> and the frequency \<open>f\<close>; \<open>ExecScript p av\<close> is the \<open>open\<close> and \<open>exec\<close> of the
  script at \<open>p\<close>, which sees \<open>av\<close> as \<open>sys.argv\<close>; \<open>AddExperimentRun (Some b)\<close> is
  \<open>addExperimentRun(lStrg.toDict())\<close> for the buffer \<open>b\<close>, and \<open>AddExperimentRun None\<close>
  is \<open>addExperimentRun(None)\<close>.
\<close>

datatype py_error = ValueError | BaseException nat

datatype result = Returned | Raised py_error

text \<open>
  \<open>multiprocessing.Event\<close> keeps its flag in a semaphore that is created with the value
  0; an event is modelled by the value of that semaphore. \<open>acquire(False)\<close> takes the
  semaphore when its value is positive and never blocks, \<open>release()\<close> adds one to it.
  \<open>Event.set()\<close> is \<open>acquire(False)\<close> followed by \<open>release()\<close>, and \<open>Event.is_set()\<close>
  tells whether \<open>acquire(False)\<close> succeeds (it releases the semaphore again). The
  \<open>notify_all()\<close> of \<open>set\<close> wakes the waiting processes, which are not part of this
  function.
\<close>

definition sem_acquire_nowait :: "nat \<Rightarrow> bool \<times> nat" where
  "sem_acquire_nowait v = (if 0 < v then (True, v - 1) else (False, v))"

definition sem_release :: "nat \<Rightarrow> nat" where
  "sem_release v = Suc v"

definition Event :: nat where
  "Event = 0"

definition event_set :: "nat \<Rightarrow> nat" where
  "event_set flag = sem_release (snd (sem_acquire_nowait flag))"

definition is_set :: "nat \<Rightarrow> bool" where
  "is_set flag = fst (sem_acquire_nowait flag)"

record 'b state =
  argv :: "string list"
  stop_event :: nat
  events :: "'b event list"

definition emit :: "'b event \<Rightarrow> 'b state \<Rightarrow> 'b state" where
  "emit e s = s\<lparr>events := events s @ [e]\<rparr>"

text \<open>\<open>stop_event.set()\<close>\<close>

definition set_stop :: "'b state \<Rightarrow> 'b state" where
  "set_stop s = emit StopSet (s\<lparr>stop_event := event_set (stop_event s)\<rparr>)"

text \<open>\<open>for backend in perun.backends: backend.close()\<close>\<close>

fun close_backends :: "backend list \<Rightarrow> 'b state \<Rightarrow> 'b state" where
  "close_backends [] s = s"
| "close_backends (b # bs) s = close_backends bs (emit (BackendClose b) s)"

definition init_state :: "'b env \<Rightarrow> 'b state" where
  "init_state env = \<lparr>argv = sys_argv env, stop_event = Event, events = []\<rparr>"

subsection \<open>monitor\<close>

definition monitor :: "'b env \<Rightarrow> result \<times> 'b state" where
  "monitor env =
    (let s = init_state env;
         filePath = Path (script env);
         outPath = Path (outdir env)
     in case list_index (argv s) (str filePath) of
          None \<Rightarrow> (Raised ValueError, s)
        | Some argIndex \<Rightarrow>
            let s = s\<lparr>argv := drop argIndex (argv s)\<rparr>;
                s = emit (GetDeviceConfiguration (backends env)) s;
                lDeviceIds = device_ids env;
                s = close_backends (backends env) s;
                s = (if length lDeviceIds > 0
                     then let s = emit QueueCreate s;
                              s = emit (ProcessStart lDeviceIds (frequency env)) s
                          in emit StartWait s
                     else s);
                s = emit Barrier s;
                s = emit (ExecScript (str filePath) (argv s)) s
            in (case workload env of
                 RaisedException \<Rightarrow>
                   (let s = emit LogError s;
                        s = emit LogError s;
                        s = set_stop s
                    in (Returned, s))
               | RaisedBaseException status \<Rightarrow> (Raised (BaseException status), s)
               | Completed \<Rightarrow>
                   (let s = set_stop s;
                        (lStrg, s) =
                          (if length lDeviceIds > 0
                           then let s = emit ProcessJoin s;
                                    s = emit ProcessClose s
                                in (queue_item env, emit QueueGet s)
                           else (None, s));
                        s = emit Barrier s;
                        s = (if rank env = 0
                             then (if \<not> outdir_exists env
                                   then emit (Mkdir (str outPath)) s
                                   else s)
                             else s);
                        scriptName = str_replace (name filePath) (suffix filePath) [];
                        resultPath = truediv outPath (scriptName @ ''.hdf5'');
                        s = emit (OpenStorage (str resultPath)) s;
                        expId = run_id env;
                        s = (case lStrg of
                               None \<Rightarrow> emit (AddExperimentRun None) s
                             | Some b \<Rightarrow>
                                 if truthy env b
                                 then let s = emit (AddExperimentRun (Some b)) s
                                      in emit (SaveDeviceData expId b) s
                                 else emit (AddExperimentRun None) s);
                        s = emit Barrier s;
                        s = emit Postprocessing s;
                        s = emit Barrier s;
                        s = (if rank env = 0
                             then emit (PrintReport expId (format env)) s
                             else s);
                        s = emit Barrier s;
                        s = emit StorageClose s
                    in (Returned, s))))"

text \<open>
  The exit status of the command line for a result of \<open>monitor\<close>: click exits with 0
  when the command function returns, the ValueError that leaves the function ends the
  interpreter with status 1, and after a \<open>BaseException\<close> of the script the process ends
  with the status that the outcome carries, a number below 256.
\<close>

fun exit_status :: "result \<Rightarrow> int" where
  "exit_status Returned = 0"
| "exit_status (Raised ValueError) = 1"
| "exit_status (Raised (BaseException status)) = int (status mod 256)"

text \<open>The option \<open>-f\<close>/\<open>--frequency\<close>: \<open>type=float, default=1.0\<close>, with no other check.\<close>

definition frequency_option :: "real option \<Rightarrow> real" where
  "frequency_option given = (case given of None \<Rightarrow> 1.0 | Some f \<Rightarrow> f)"

subsection \<open>The run of one process, phase by phase\<close>

text \<open>
  The events and the result of a run, and the events of each block of \<open>monitor\<close>:
  the lemmas of the next section show that a run is the concatenation of these blocks.
\<close>

definition run_events :: "'b env \<Rightarrow> 'b event list" where
  "run_events env = events (snd (monitor env))"

definition run_result :: "'b env \<Rightarrow> result" where
  "run_result env = fst (monitor env)"

definition script_arg :: "'b env \<Rightarrow> string" where
  "script_arg env = str (Path (script env))"

definition worker_start_events :: "'b env \<Rightarrow> 'b event list" where
  "worker_start_events env =
     (if device_ids env = [] then []
      else [QueueCreate, ProcessStart (device_ids env) (frequency env), StartWait])"

definition setup_events :: "'b env \<Rightarrow> 'b event list" where
  "setup_events env =
     GetDeviceConfiguration (backends env) # map BackendClose (backends env)
       @ worker_start_events env"

definition collect_events :: "'b env \<Rightarrow> 'b event list" where
  "collect_events env =
     (if device_ids env = [] then [] else [ProcessJoin, ProcessClose, QueueGet])"

definition lStrg :: "'b env \<Rightarrow> 'b option" where
  "lStrg env = (if device_ids env = [] then None else queue_item env)"

definition mkdir_events :: "'b env \<Rightarrow> 'b event list" where
  "mkdir_events env =
     (if rank env = 0 \<and> \<not> outdir_exists env then [Mkdir (str (Path (outdir env)))] else [])"

definition resultPath :: "'b env \<Rightarrow> pure_path" where
  "resultPath env =
     truediv (Path (outdir env))
       (str_replace (name (Path (script env))) (suffix (Path (script env))) [] @ ''.hdf5'')"

definition registered :: "'b env \<Rightarrow> 'b option" where
  "registered env =
     (case lStrg env of
        None \<Rightarrow> None
      | Some b \<Rightarrow> if truthy env b then Some b else None)"

definition persist_events :: "'b env \<Rightarrow> 'b event list" where
  "persist_events env =
     (case registered env of
        None \<Rightarrow> [AddExperimentRun None]
      | Some b \<Rightarrow> [AddExperimentRun (Some b), SaveDeviceData (run_id env) b])"

definition report_events :: "'b env \<Rightarrow> 'b event list" where
  "report_events env =
     (if rank env = 0 then [PrintReport (run_id env) (format env)] else [])"

subsection \<open>Kinds of events and two concrete processes\<close>

fun storage_event :: "'b event \<Rightarrow> bool" where
  "storage_event (OpenStorage p) = True"
| "storage_event (AddExperimentRun d) = True"
| "storage_event (SaveDeviceData i b) = True"
| "storage_event StorageClose = True"
| "storage_event e = False"

fun collect_event :: "'b event \<Rightarrow> bool" where
  "collect_event ProcessJoin = True"
| "collect_event ProcessClose = True"
| "collect_event QueueGet = True"
| "collect_event e = False"

fun backend_event :: "'b event \<Rightarrow> bool" where
  "backend_event (GetDeviceConfiguration bs) = True"
| "backend_event (BackendClose b) = True"
| "backend_event e = False"

fun add_run_event :: "'b event \<Rightarrow> bool" where
  "add_run_event (AddExperimentRun d) = True"
| "add_run_event e = False"

definition rank0_env :: "(nat list) env" where
  "rank0_env =
     \<lparr>script = ''train.py'', frequency = 2, outdir = ''results'', format = ''json'',
      sys_argv = [''perun'', ''monitor'', ''-f'', ''2'', ''train.py'', ''--epochs'', ''3''],
      rank = 0, backends = [''rapl'', ''nvml''], device_ids = [''cpu0''],
      workload = Completed, queue_item = Some [41, 43], truthy = (\<lambda>b. True),
      outdir_exists = False, run_id = 0\<rparr>"

definition rank1_env :: "(nat list) env" where
  "rank1_env = rank0_env\<lparr>rank := 1, device_ids := [], queue_item := None\<rparr>"

fun worker_event :: "'b event \<Rightarrow> bool" where
  "worker_event QueueCreate = True"
| "worker_event (ProcessStart ds f) = True"
| "worker_event StartWait = True"
| "worker_event ProcessJoin = True"
| "worker_event ProcessClose = True"
| "worker_event QueueGet = True"
| "worker_event e = False"

text \<open>The paths at which a run opens the experiment storage.\<close>

fun opened_paths :: "'b event list \<Rightarrow> string list" where
  "opened_paths [] = []"
| "opened_paths (OpenStorage p # es) = p # opened_paths es"
| "opened_paths (e # es) = opened_paths es"

text \<open>
  \<open>rank0_env\<close> and \<open>rank1_env\<close> are the two processes of a session at 2 Hz: rank 0 owns
  one device, rank 1 owns none. In \<open>failing_env\<close> the script of rank 0 raises an
  exception, in \<open>exiting_env\<close> it ends with \<open>sys.exit(0)\<close>. In \<open>no_script_env\<close> the script is given as \<open>./train.py\<close>, which \<open>Path\<close>
  turns into \<open>train.py\<close>, a string that is not in \<open>sys.argv\<close>. In \<open>dotted_env\<close> the
  name of the script holds its suffix twice.
\<close>

definition failing_env :: "(nat list) env" where
  "failing_env = rank0_env\<lparr>workload := RaisedException\<rparr>"

definition exiting_env :: "(nat list) env" where
  "exiting_env = rank0_env\<lparr>workload := RaisedBaseException 0\<rparr>"

definition no_script_env :: "(nat list) env" where
  "no_script_env =
     rank0_env\<lparr>script := ''./train.py'', sys_argv := [''perun'', ''monitor'', ''./train.py'']\<rparr>"

definition dotted_env :: "(nat list) env" where
  "dotted_env =
     rank0_env\<lparr>script := ''a.py.b.py'', outdir := ''out'',
       sys_argv := [''perun'', ''monitor'', ''-o'', ''out'', ''a.py.b.py'']\<rparr>"

section \<open>The three ways a run can go\<close>

text \<open>
  A run either raises ValueError while it looks for the script in \<open>sys.argv\<close>, or
  reaches the script; then the script completes, raises an exception that the handler
  catches, or leaves through an exception that the handler does not catch.
\<close>

lemma events_emit [simp]: "events (emit e s) = events s @ [e]"
  and argv_emit [simp]: "argv (emit e s) = argv s"
  and stop_event_emit [simp]: "stop_event (emit e s) = stop_event s"
  by (simp_all add: emit_def)

lemma events_set_stop [simp]: "events (set_stop s) = events s @ [StopSet]"
  and argv_set_stop [simp]: "argv (set_stop s) = argv s"
  and stop_event_set_stop [simp]: "stop_event (set_stop s) = event_set (stop_event s)"
  by (simp_all add: set_stop_def)

lemma event_set_value: "event_set flag = (if flag = 0 then 1 else flag)"
  by (simp add: event_set_def sem_acquire_nowait_def sem_release_def)

lemma is_set_positive: "is_set flag \<longleftrightarrow> 0 < flag"
  by (simp add: is_set_def sem_acquire_nowait_def)

lemma is_set_event_set [simp]: "is_set (event_set flag)"
  by (simp add: event_set_value is_set_positive)


lemma not_is_set_Event [simp]: "\<not> is_set Event"
  by (simp add: is_set_positive Event_def)

lemma close_backends_fields [simp]:
  "events (close_backends bs s) = events s @ map BackendClose bs"
  "argv (close_backends bs s) = argv s"
  "stop_event (close_backends bs s) = stop_event s"
  by (induction bs arbitrary: s) simp_all

lemma monitor_no_script:
  assumes "list_index (sys_argv env) (script_arg env) = None"
  shows "monitor env = (Raised ValueError, init_state env)"
  using assms by (simp add: monitor_def script_arg_def init_state_def Let_def)

lemma monitor_exception:
  assumes "list_index (sys_argv env) (script_arg env) = Some i"
    and "workload env = RaisedException"
  shows "run_result env = Returned"
    and "run_events env =
           setup_events env @ [Barrier, ExecScript (script_arg env) (drop i (sys_argv env))]
             @ [LogError, LogError, StopSet]"
    and "argv (snd (monitor env)) = drop i (sys_argv env)"
    and "stop_event (snd (monitor env)) = event_set Event"
  using assms
  by (simp_all add: monitor_def run_result_def run_events_def script_arg_def init_state_def
      Let_def setup_events_def worker_start_events_def)

lemma monitor_base_exception:
  assumes "list_index (sys_argv env) (script_arg env) = Some i"
    and "workload env = RaisedBaseException status"
  shows "run_result env = Raised (BaseException status)"
    and "run_events env =
           setup_events env @ [Barrier, ExecScript (script_arg env) (drop i (sys_argv env))]"
    and "argv (snd (monitor env)) = drop i (sys_argv env)"
    and "stop_event (snd (monitor env)) = Event"
  using assms
  by (simp_all add: monitor_def run_result_def run_events_def script_arg_def init_state_def
      Let_def setup_events_def worker_start_events_def)

lemma monitor_completed:
  assumes "list_index (sys_argv env) (script_arg env) = Some i"
    and "workload env = Completed"
  shows "run_result env = Returned"
    and "run_events env =
           setup_events env @ [Barrier, ExecScript (script_arg env) (drop i (sys_argv env))]
             @ [StopSet] @ collect_events env @ [Barrier] @ mkdir_events env
             @ [OpenStorage (str (resultPath env))] @ persist_events env
             @ [Barrier, Postprocessing, Barrier] @ report_events env
             @ [Barrier, StorageClose]"
    and "argv (snd (monitor env)) = drop i (sys_argv env)"
    and "stop_event (snd (monitor env)) = event_set Event"
  using assms
  by (simp_all add: monitor_def run_result_def run_events_def script_arg_def init_state_def
      Let_def setup_events_def worker_start_events_def collect_events_def mkdir_events_def
      resultPath_def persist_events_def registered_def lStrg_def report_events_def
      split: option.splits)

lemma run_events_cases:
  obtains (no_script) "list_index (sys_argv env) (script_arg env) = None"
      "run_events env = []"
  | (exception) i where "list_index (sys_argv env) (script_arg env) = Some i"
      "workload env = RaisedException"
      "run_events env =
         setup_events env @ [Barrier, ExecScript (script_arg env) (drop i (sys_argv env))]
           @ [LogError, LogError, StopSet]"
  | (base_exception) i status where "list_index (sys_argv env) (script_arg env) = Some i"
      "workload env = RaisedBaseException status"
      "run_events env =
         setup_events env @ [Barrier, ExecScript (script_arg env) (drop i (sys_argv env))]"
  | (completed) i where "list_index (sys_argv env) (script_arg env) = Some i"
      "workload env = Completed"
      "run_events env =
         setup_events env @ [Barrier, ExecScript (script_arg env) (drop i (sys_argv env))]
           @ [StopSet] @ collect_events env @ [Barrier] @ mkdir_events env
           @ [OpenStorage (str (resultPath env))] @ persist_events env
           @ [Barrier, Postprocessing, Barrier] @ report_events env
           @ [Barrier, StorageClose]"
proof (cases "list_index (sys_argv env) (script_arg env)")
  case None
  from monitor_no_script [OF None] have "run_events env = []"
    by (simp add: run_events_def init_state_def)
  with None show ?thesis by (rule no_script)
next
  case (Some i)
  show ?thesis
  proof (cases "workload env")
    case Completed
    from Some Completed monitor_completed(2) [OF Some Completed] show ?thesis
      by (rule completed)
  next
    case RaisedException
    from Some RaisedException monitor_exception(2) [OF Some RaisedException] show ?thesis
      by (rule exception)
  next
    case (RaisedBaseException c)
    from Some RaisedBaseException monitor_base_exception(2) [OF Some RaisedBaseException]
    show ?thesis by (rule base_exception)
  qed
qed

subsection \<open>What the blocks of a run contain\<close>

lemmas path_simps = script_arg_def Path_def splitroot_def str_def name_def suffix_def
  truediv_def str_replace_def

lemmas phase_simps = setup_events_def worker_start_events_def collect_events_def
  mkdir_events_def persist_events_def registered_def lStrg_def report_events_def
  resultPath_def

lemma no_barrier_in_phases [simp]:
  "Barrier \<notin> set (setup_events env)" "Barrier \<notin> set (collect_events env)"
  "Barrier \<notin> set (mkdir_events env)" "Barrier \<notin> set (persist_events env)"
  "Barrier \<notin> set (report_events env)"
  by (auto simp: phase_simps split: option.splits)

lemma no_stop_in_phases [simp]:
  "StopSet \<notin> set (setup_events env)" "StopSet \<notin> set (collect_events env)"
  "StopSet \<notin> set (mkdir_events env)" "StopSet \<notin> set (persist_events env)"
  "StopSet \<notin> set (report_events env)"
  by (auto simp: phase_simps split: option.splits)

lemma no_storage_in_setup [simp]: "e \<in> set (setup_events env) \<Longrightarrow> \<not> storage_event e"
  by (auto simp: phase_simps split: if_splits)


lemma takeWhile_until:
  "x \<notin> set xs \<Longrightarrow> takeWhile (\<lambda>e. e \<noteq> x) (xs @ x # ys) = xs"
  by (induction xs) auto

lemma dropWhile_until:
  "x \<notin> set xs \<Longrightarrow> dropWhile (\<lambda>e. e \<noteq> x) (xs @ x # ys) = x # ys"
  by (induction xs) auto

lemma run_after_setup:
  assumes "list_index (sys_argv env) (script_arg env) = Some i"
  shows "\<exists>rest. run_events env =
           setup_events env @ Barrier # ExecScript (script_arg env) (drop i (sys_argv env)) # rest
         \<and> (\<forall>e \<in> set rest. \<not> backend_event e)
         \<and> (device_ids env = [] \<longrightarrow> (\<forall>e \<in> set rest. \<not> worker_event e))"
proof (cases "workload env")
  case Completed
  from monitor_completed(2) [OF assms Completed] show ?thesis
    by (auto simp: collect_events_def mkdir_events_def persist_events_def report_events_def
        split: option.splits)
next
  case RaisedException
  from monitor_exception(2) [OF assms RaisedException] show ?thesis by auto
next
  case (RaisedBaseException c)
  from monitor_base_exception(2) [OF assms RaisedBaseException] show ?thesis by auto
qed

lemma resolution_reached:
  assumes "GetDeviceConfiguration bs \<in> set (run_events env)"
  obtains i where "list_index (sys_argv env) (script_arg env) = Some i"
proof (cases "list_index (sys_argv env) (script_arg env)")
  case None
  from monitor_no_script [OF None] assms show ?thesis
    by (simp add: run_events_def init_state_def)
next
  case (Some i)
  then show ?thesis by (rule that)
qed

lemma process_start_cases:
  assumes "ProcessStart ds f \<in> set (run_events env)"
  shows "ds = device_ids env \<and> f = frequency env \<and> device_ids env \<noteq> []"
  using assms
  by (cases env rule: run_events_cases)
    (auto simp: phase_simps split: if_splits option.splits)

subsection \<open>The concrete processes\<close>

lemma rank0_index: "list_index (sys_argv rank0_env) (script_arg rank0_env) = Some 4"
  by (simp add: rank0_env_def path_simps)

lemma rank1_index: "list_index (sys_argv rank1_env) (script_arg rank1_env) = Some 4"
  by (simp add: rank1_env_def rank0_env_def path_simps)

lemma failing_index: "list_index (sys_argv failing_env) (script_arg failing_env) = Some 4"
  by (simp add: failing_env_def rank0_env_def path_simps)

lemma exiting_index: "list_index (sys_argv exiting_env) (script_arg exiting_env) = Some 4"
  by (simp add: exiting_env_def rank0_env_def path_simps)


lemma dotted_index: "list_index (sys_argv dotted_env) (script_arg dotted_env) = Some 4"
  by (simp add: dotted_env_def rank0_env_def path_simps)

section \<open>The claims\<close>

subsection \<open>A workload that raises\<close>

text \<open>
  Claim C1, as amended. For every run of the monitor command in which the workload raises
  an Exception, the orchestrator logs the error, signals stop exactly once and returns
  normally to the caller: nothing is persisted (the storage is never opened and no run is
  registered), and the command outcome is zero, since the failure is logged and not
  raised again.
\<close>

theorem workload_exception_stops_and_returns:
  assumes "list_index (sys_argv env) (script_arg env) = Some argIndex"
    and "workload env = RaisedException"
  shows "count_list (run_events env) StopSet = 1
       \<and> LogError \<in> set (run_events env)
       \<and> (\<forall>e \<in> set (run_events env). \<not> storage_event e)
       \<and> run_result env = Returned
       \<and> exit_status (run_result env) = 0"
  using monitor_exception [OF assms] by auto

theorem workload_exception_stops_and_returns_witness:
  "list_index (sys_argv failing_env) (script_arg failing_env) = Some 4
   \<and> workload failing_env = RaisedException
   \<and> count_list (run_events failing_env) StopSet = 1
   \<and> exit_status (run_result failing_env) = 0"
proof -
  have w: "workload failing_env = RaisedException" by (simp add: failing_env_def)
  from workload_exception_stops_and_returns [OF failing_index w] failing_index w
  show ?thesis by simp
qed

text \<open>
  The claim as it was stated fails on \<open>failing_env\<close>: a worker was started, the script
  raises, and the run neither joins the worker nor ends with a status other than zero.
\<close>

theorem workload_exception_no_join_exit_zero:
  "workload failing_env = RaisedException
   \<and> ProcessStart [''cpu0''] 2 \<in> set (run_events failing_env)
   \<and> ProcessJoin \<notin> set (run_events failing_env)
   \<and> exit_status (run_result failing_env) = 0"
proof -
  have w: "workload failing_env = RaisedException" by (simp add: failing_env_def)
  have d: "device_ids failing_env = [''cpu0'']" "frequency failing_env = 2"
    by (simp_all add: failing_env_def rank0_env_def)
  show ?thesis
    using monitor_exception(1,2) [OF failing_index w] d w by (auto simp: phase_simps)
qed

subsection \<open>The barriers\<close>

text \<open>
  Claim C2, as amended. In every run of the monitor command that reaches the workload,
  the barrier is invoked after the worker is ready and before the workload starts. When
  the workload completes it is invoked four more times, five in all: after stop is
  signaled and the result is collected, before any output path is created; after
  persistence, before postprocessing; after postprocessing, before the report; and after
  the report, before the storage is closed. When the workload does not complete, because
  it raises an Exception or an exception that the handler does not catch, only the first
  barrier is invoked. No block between two barriers holds a barrier.
\<close>

theorem barriers_of_a_run:
  assumes "list_index (sys_argv env) (script_arg env) = Some argIndex"
  shows "take (length (setup_events env) + 2) (run_events env) =
           setup_events env
           @ [Barrier]
           @ [ExecScript (script_arg env) (drop argIndex (sys_argv env))]
       \<and> (workload env = Completed \<longrightarrow>
            run_events env =
              setup_events env
              @ [Barrier]
              @ [ExecScript (script_arg env) (drop argIndex (sys_argv env)), StopSet]
              @ collect_events env
              @ [Barrier]
              @ mkdir_events env @ [OpenStorage (str (resultPath env))] @ persist_events env
              @ [Barrier]
              @ [Postprocessing]
              @ [Barrier]
              @ report_events env
              @ [Barrier]
              @ [StorageClose]
            \<and> count_list (run_events env) Barrier = 5)
       \<and> (workload env = RaisedException \<longrightarrow>
            run_events env =
              setup_events env
              @ [Barrier]
              @ [ExecScript (script_arg env) (drop argIndex (sys_argv env)),
                 LogError, LogError, StopSet]
            \<and> count_list (run_events env) Barrier = 1)
       \<and> (\<forall>status. workload env = RaisedBaseException status \<longrightarrow>
            run_events env =
              setup_events env
              @ [Barrier]
              @ [ExecScript (script_arg env) (drop argIndex (sys_argv env))]
            \<and> count_list (run_events env) Barrier = 1)
       \<and> Barrier \<notin> set (setup_events env) \<and> Barrier \<notin> set (collect_events env)
       \<and> Barrier \<notin> set (mkdir_events env) \<and> Barrier \<notin> set (persist_events env)
       \<and> Barrier \<notin> set (report_events env)"
proof (cases "workload env")
  case Completed
  with monitor_completed(2) [OF assms Completed] show ?thesis by simp
next
  case RaisedException
  with monitor_exception(2) [OF assms RaisedException] show ?thesis by simp
next
  case (RaisedBaseException c)
  with monitor_base_exception(2) [OF assms RaisedBaseException] show ?thesis by simp
qed

theorem barriers_of_a_run_witness:
  "list_index (sys_argv rank0_env) (script_arg rank0_env) = Some 4
   \<and> workload rank0_env = Completed
   \<and> count_list (run_events rank0_env) Barrier = 5
   \<and> list_index (sys_argv failing_env) (script_arg failing_env) = Some 4
   \<and> workload failing_env = RaisedException
   \<and> count_list (run_events failing_env) Barrier = 1
   \<and> list_index (sys_argv exiting_env) (script_arg exiting_env) = Some 4
   \<and> workload exiting_env = RaisedBaseException 0
   \<and> count_list (run_events exiting_env) Barrier = 1"
proof -
  have w: "workload rank0_env = Completed" "workload failing_env = RaisedException"
    "workload exiting_env = RaisedBaseException 0"
    by (simp_all add: failing_env_def exiting_env_def rank0_env_def)
  show ?thesis
    using barriers_of_a_run [OF rank0_index] barriers_of_a_run [OF failing_index]
      barriers_of_a_run [OF exiting_index] rank0_index failing_index exiting_index w
    by simp
qed

text \<open>The claim as it was stated fails on \<open>rank0_env\<close>: a completed run has five barriers.\<close>

theorem five_barriers_not_three:
  "workload rank0_env = Completed
   \<and> count_list (run_events rank0_env) Barrier = 5
   \<and> count_list (run_events rank0_env) Barrier \<noteq> 3"
proof -
  have w: "workload rank0_env = Completed" by (simp add: rank0_env_def)
  show ?thesis using monitor_completed(2) [OF rank0_index w] w by simp
qed

subsection \<open>The sampling frequency\<close>

text \<open>
  Claim C3, as amended. For every run, the sampling frequency handed to the sampler
  worker is exactly the value of the option \<open>-f\<close>/\<open>--frequency\<close> (1.0 when the option is
  absent), passed on unchecked: it is positive exactly when the given value is positive.
\<close>

theorem worker_frequency_is_the_option:
  assumes "ProcessStart ds f \<in> set (run_events (env\<lparr>frequency := frequency_option given\<rparr>))"
  shows "f = (case given of None \<Rightarrow> 1 | Some g \<Rightarrow> g)
       \<and> (0 < f \<longleftrightarrow> (case given of None \<Rightarrow> True | Some g \<Rightarrow> 0 < g))"
  using process_start_cases [OF assms]
  by (simp add: frequency_option_def split: option.splits)

theorem worker_frequency_is_the_option_witness:
  "ProcessStart [''cpu0''] 1 \<in> set (run_events (rank0_env\<lparr>frequency := frequency_option None\<rparr>))
   \<and> (1::real) = (case (None :: real option) of None \<Rightarrow> 1 | Some g \<Rightarrow> g)"
proof -
  let ?env = "rank0_env\<lparr>frequency := frequency_option None\<rparr>"
  have i: "list_index (sys_argv ?env) (script_arg ?env) = Some 4"
    by (simp add: rank0_env_def path_simps)
  have w: "workload ?env = Completed" by (simp add: rank0_env_def)
  have d: "device_ids ?env = [''cpu0'']" "frequency ?env = 1"
    by (simp_all add: rank0_env_def frequency_option_def)
  have p: "ProcessStart [''cpu0''] 1 \<in> set (run_events ?env)"
    using monitor_completed(2) [OF i w] d by (simp add: phase_simps)
  from worker_frequency_is_the_option [OF p] p show ?thesis by simp
qed

text \<open>
  The claim as it was stated fails for \<open>-f 0\<close>: the worker of rank 0 is started with the
  frequency 0.
\<close>

theorem worker_started_with_zero_frequency:
  "ProcessStart [''cpu0''] 0
     \<in> set (run_events (rank0_env\<lparr>frequency := frequency_option (Some 0)\<rparr>))
   \<and> \<not> (0 < (0::real))"
proof -
  let ?env = "rank0_env\<lparr>frequency := frequency_option (Some 0)\<rparr>"
  have i: "list_index (sys_argv ?env) (script_arg ?env) = Some 4"
    by (simp add: rank0_env_def path_simps)
  have w: "workload ?env = Completed" by (simp add: rank0_env_def)
  have d: "device_ids ?env = [''cpu0'']" "frequency ?env = 0"
    by (simp_all add: rank0_env_def frequency_option_def)
  show ?thesis using monitor_completed(2) [OF i w] d by (simp add: phase_simps)
qed

subsection \<open>The stop signal\<close>

lemma stop_count:
  "count_list (run_events env) StopSet =
     (if list_index (sys_argv env) (script_arg env) \<noteq> None
         \<and> (workload env = Completed \<or> workload env = RaisedException)
      then 1 else 0)"
  by (cases env rule: run_events_cases) simp_all


lemma stop_signaled:
  assumes "StopSet \<in> set (run_events env)"
  obtains i where "list_index (sys_argv env) (script_arg env) = Some i"
    and "workload env = Completed \<or> workload env = RaisedException"
proof -
  from assms have "count_list (run_events env) StopSet \<noteq> 0"
    by (simp add: count_list_0_iff)
  then have "list_index (sys_argv env) (script_arg env) \<noteq> None
      \<and> (workload env = Completed \<or> workload env = RaisedException)"
    unfolding stop_count by (simp split: if_splits)
  then show ?thesis using that by auto
qed






subsection \<open>Starting the worker\<close>

text \<open>
  Claim C5. For every process whose resolved device list is empty, the monitor command
  spawns no worker process and reaches the first barrier without ever blocking on the
  start signal; for every process with a non-empty device list, it spawns a worker and
  waits on the start signal before the first barrier.
\<close>

theorem worker_started_iff_devices:
  assumes "GetDeviceConfiguration bs \<in> set (run_events env)"
  shows "Barrier \<in> set (run_events env)
       \<and> (device_ids env = [] \<longrightarrow>
            takeWhile (\<lambda>e. e \<noteq> Barrier) (run_events env) =
              GetDeviceConfiguration (backends env) # map BackendClose (backends env)
            \<and> (\<forall>e \<in> set (run_events env). \<not> worker_event e))
       \<and> (device_ids env \<noteq> [] \<longrightarrow>
            takeWhile (\<lambda>e. e \<noteq> Barrier) (run_events env) =
              GetDeviceConfiguration (backends env) # map BackendClose (backends env)
              @ [QueueCreate, ProcessStart (device_ids env) (frequency env), StartWait])"
proof -
  from assms obtain i where idx: "list_index (sys_argv env) (script_arg env) = Some i"
    by (rule resolution_reached)
  from run_after_setup [OF idx] obtain rest where
    ev: "run_events env =
           setup_events env @ Barrier # ExecScript (script_arg env) (drop i (sys_argv env)) # rest"
    and nw: "device_ids env = [] \<longrightarrow> (\<forall>e \<in> set rest. \<not> worker_event e)"
    by blast
  have "Barrier \<notin> set (setup_events env)" by simp
  then have tw: "takeWhile (\<lambda>e. e \<noteq> Barrier) (run_events env) = setup_events env"
    unfolding ev by (rule takeWhile_until)
  have b: "Barrier \<in> set (run_events env)" unfolding ev by simp
  have s0: "device_ids env = [] \<Longrightarrow> \<forall>e \<in> set (setup_events env). \<not> worker_event e"
    by (auto simp: setup_events_def worker_start_events_def)
  have "device_ids env = [] \<Longrightarrow> \<forall>e \<in> set (run_events env). \<not> worker_event e"
    using nw s0 unfolding ev by auto
  with tw b show ?thesis
    by (simp add: setup_events_def worker_start_events_def)
qed

theorem worker_started_iff_devices_witness:
  "GetDeviceConfiguration [''rapl'', ''nvml''] \<in> set (run_events rank1_env)
   \<and> device_ids rank1_env = []
   \<and> takeWhile (\<lambda>e. e \<noteq> Barrier) (run_events rank1_env) =
       [GetDeviceConfiguration [''rapl'', ''nvml''], BackendClose ''rapl'', BackendClose ''nvml'']
   \<and> GetDeviceConfiguration [''rapl'', ''nvml''] \<in> set (run_events rank0_env)
   \<and> device_ids rank0_env \<noteq> []
   \<and> takeWhile (\<lambda>e. e \<noteq> Barrier) (run_events rank0_env) =
       [GetDeviceConfiguration [''rapl'', ''nvml''], BackendClose ''rapl'', BackendClose ''nvml'',
        QueueCreate, ProcessStart [''cpu0''] 2, StartWait]"
proof -
  have d: "device_ids rank1_env = []" "backends rank1_env = [''rapl'', ''nvml'']"
    "device_ids rank0_env = [''cpu0'']" "backends rank0_env = [''rapl'', ''nvml'']"
    "frequency rank0_env = 2"
    by (simp_all add: rank1_env_def rank0_env_def)
  have w: "workload rank0_env = Completed" "workload rank1_env = Completed"
    by (simp_all add: rank1_env_def rank0_env_def)
  have g1: "GetDeviceConfiguration [''rapl'', ''nvml''] \<in> set (run_events rank1_env)"
    using monitor_completed(2) [OF rank1_index w(2)] d by (simp add: setup_events_def)
  have g0: "GetDeviceConfiguration [''rapl'', ''nvml''] \<in> set (run_events rank0_env)"
    using monitor_completed(2) [OF rank0_index w(1)] d by (simp add: setup_events_def)
  from worker_started_iff_devices [OF g1] worker_started_iff_devices [OF g0] g1 g0 d
  show ?thesis by simp
qed

subsection \<open>Collecting the result and registering the run\<close>

text \<open>
  Claim C6, as amended. After stop is signaled on a completed workload, every process
  that spawned a worker blocks for the worker's termination and retrieves the finalized
  buffer from the hand-off channel, while every process without a worker takes a null
  result; in both cases the process registers exactly one run with the result sink,
  passing its buffer's data or a null marker. After stop is signaled because the workload
  raised an Exception, the process registers no run and does not touch the storage.
\<close>

theorem result_collected_and_one_run_registered:
  assumes "StopSet \<in> set (run_events env)"
  shows "(workload env = Completed \<longrightarrow>
            (device_ids env \<noteq> [] \<longrightarrow>
               take 5 (dropWhile (\<lambda>e. e \<noteq> StopSet) (run_events env)) =
                 [StopSet, ProcessJoin, ProcessClose, QueueGet, Barrier])
            \<and> (device_ids env = [] \<longrightarrow>
               take 2 (dropWhile (\<lambda>e. e \<noteq> StopSet) (run_events env)) = [StopSet, Barrier]
               \<and> (\<forall>e \<in> set (run_events env). \<not> collect_event e))
            \<and> filter add_run_event (run_events env) =
                 [AddExperimentRun
                    (if device_ids env = [] then None
                     else (case queue_item env of
                             None \<Rightarrow> None
                           | Some b \<Rightarrow> if truthy env b then Some b else None))])
       \<and> (workload env \<noteq> Completed \<longrightarrow>
            workload env = RaisedException
            \<and> filter add_run_event (run_events env) = []
            \<and> (\<forall>e \<in> set (run_events env). \<not> storage_event e))"
proof -
  from assms obtain i where idx: "list_index (sys_argv env) (script_arg env) = Some i"
    and w: "workload env = Completed \<or> workload env = RaisedException"
    by (rule stop_signaled)
  from w show ?thesis
  proof
    assume c: "workload env = Completed"
    let ?pre = "setup_events env
                @ [Barrier, ExecScript (script_arg env) (drop i (sys_argv env))]"
    let ?post = "collect_events env @ [Barrier] @ mkdir_events env
               @ [OpenStorage (str (resultPath env))] @ persist_events env
               @ [Barrier, Postprocessing, Barrier] @ report_events env
               @ [Barrier, StorageClose]"
    have ev: "run_events env = ?pre @ StopSet # ?post"
      using monitor_completed(2) [OF idx c] by simp
    have "StopSet \<notin> set ?pre" by simp
    then have dw: "dropWhile (\<lambda>e. e \<noteq> StopSet) (run_events env) = StopSet # ?post"
      unfolding ev by (rule dropWhile_until)
    have f1: "filter add_run_event (setup_events env) = []"
      "filter add_run_event (collect_events env) = []"
      "filter add_run_event (mkdir_events env) = []"
      "filter add_run_event (report_events env) = []"
      by (simp_all add: phase_simps)
    have f2: "filter add_run_event (persist_events env) = [AddExperimentRun (registered env)]"
      by (simp add: persist_events_def split: option.splits)
    have reg: "filter add_run_event (run_events env) = [AddExperimentRun (registered env)]"
      unfolding ev by (simp add: f1 f2)
    have nc: "device_ids env = [] \<Longrightarrow> \<forall>e \<in> set (run_events env). \<not> collect_event e"
      unfolding ev by (auto simp: phase_simps split: option.splits)
    show ?thesis
      using dw reg nc c
      by (simp add: collect_events_def registered_def lStrg_def split: option.splits)
  next
    assume x: "workload env = RaisedException"
    have ev: "run_events env =
                setup_events env @ [Barrier, ExecScript (script_arg env) (drop i (sys_argv env))]
                @ [LogError, LogError, StopSet]"
      by (rule monitor_exception(2) [OF idx x])
    have ns: "\<forall>e \<in> set (run_events env). \<not> storage_event e"
      unfolding ev by auto
    have "filter add_run_event (setup_events env) = []"
      by (simp add: phase_simps)
    then have "filter add_run_event (run_events env) = []"
      unfolding ev by simp
    with ns x show ?thesis by simp
  qed
qed

theorem result_collected_and_one_run_registered_witness:
  "StopSet \<in> set (run_events rank0_env)
   \<and> workload rank0_env = Completed
   \<and> device_ids rank0_env \<noteq> []
   \<and> take 5 (dropWhile (\<lambda>e. e \<noteq> StopSet) (run_events rank0_env)) =
       [StopSet, ProcessJoin, ProcessClose, QueueGet, Barrier]
   \<and> filter add_run_event (run_events rank0_env) = [AddExperimentRun (Some [41, 43])]
   \<and> StopSet \<in> set (run_events rank1_env)
   \<and> workload rank1_env = Completed
   \<and> device_ids rank1_env = []
   \<and> filter add_run_event (run_events rank1_env) = [AddExperimentRun None]
   \<and> StopSet \<in> set (run_events failing_env)
   \<and> workload failing_env = RaisedException
   \<and> filter add_run_event (run_events failing_env) = []"
proof -
  have w: "workload rank0_env = Completed" "workload rank1_env = Completed"
    "workload failing_env = RaisedException"
    by (simp_all add: rank1_env_def failing_env_def rank0_env_def)
  have d: "device_ids rank0_env = [''cpu0'']" "device_ids rank1_env = []"
    "queue_item rank0_env = Some [41, 43]" "truthy rank0_env [41, 43]"
    by (simp_all add: rank1_env_def rank0_env_def)
  have s: "StopSet \<in> set (run_events rank0_env)" "StopSet \<in> set (run_events rank1_env)"
    "StopSet \<in> set (run_events failing_env)"
    using monitor_completed(2) [OF rank0_index w(1)] monitor_completed(2) [OF rank1_index w(2)]
      monitor_exception(2) [OF failing_index w(3)]
    by simp_all
  from result_collected_and_one_run_registered [OF s(1)]
    result_collected_and_one_run_registered [OF s(2)]
    result_collected_and_one_run_registered [OF s(3)] s w d
  show ?thesis by simp
qed

text \<open>
  The claim as it was stated fails on \<open>failing_env\<close>: stop is signaled by a process that
  spawned a worker, and the process neither waits for the worker, nor takes anything from
  the queue, nor registers a run.
\<close>

theorem stop_signaled_without_collection:
  "StopSet \<in> set (run_events failing_env)
   \<and> ProcessStart [''cpu0''] 2 \<in> set (run_events failing_env)
   \<and> ProcessJoin \<notin> set (run_events failing_env)
   \<and> QueueGet \<notin> set (run_events failing_env)
   \<and> filter add_run_event (run_events failing_env) = []"
proof -
  have w: "workload failing_env = RaisedException" by (simp add: failing_env_def)
  have d: "device_ids failing_env = [''cpu0'']" "frequency failing_env = 2"
    "backends failing_env = [''rapl'', ''nvml'']"
    by (simp_all add: failing_env_def rank0_env_def)
  show ?thesis
    using monitor_exception(2) [OF failing_index w] d by (simp add: phase_simps)
qed

subsection \<open>The actions of rank 0\<close>

lemma singleton_events_only_when_completed:
  assumes "Mkdir p \<in> set (run_events env) \<or> PrintReport n f \<in> set (run_events env)"
  shows "\<exists>i. list_index (sys_argv env) (script_arg env) = Some i \<and> workload env = Completed"
proof (cases env rule: run_events_cases)
  case no_script
  with assms show ?thesis by simp
next
  case (exception i)
  with assms show ?thesis
    by (auto simp: setup_events_def worker_start_events_def split: if_splits)
next
  case (base_exception i status)
  with assms show ?thesis
    by (auto simp: setup_events_def worker_start_events_def split: if_splits)
next
  case (completed i)
  then show ?thesis by blast
qed

lemma singleton_events_completed:
  assumes "list_index (sys_argv env) (script_arg env) = Some i" and "workload env = Completed"
  shows "Mkdir p \<in> set (run_events env) \<longleftrightarrow>
           rank env = 0 \<and> \<not> outdir_exists env \<and> p = str (Path (outdir env))"
    and "PrintReport n f \<in> set (run_events env) \<longleftrightarrow>
           rank env = 0 \<and> n = run_id env \<and> f = format env"
  using monitor_completed(2) [OF assms]
  by (auto simp: phase_simps split: option.splits if_splits)

text \<open>
  Claim C7. In every run, only the process of rank 0 performs the singleton actions: only
  rank 0 creates the output directory when it does not exist, and only rank 0 renders and
  prints the report; every other process performs neither. Rank 0 performs them exactly
  in the runs whose workload completes.
\<close>

theorem only_rank_zero_creates_outdir_and_reports:
  "(Mkdir p \<in> set (run_events env) \<longleftrightarrow>
      rank env = 0 \<and> \<not> outdir_exists env \<and> p = str (Path (outdir env))
      \<and> list_index (sys_argv env) (script_arg env) \<noteq> None \<and> workload env = Completed)
   \<and> (PrintReport n f \<in> set (run_events env) \<longleftrightarrow>
      rank env = 0 \<and> n = run_id env \<and> f = format env
      \<and> list_index (sys_argv env) (script_arg env) \<noteq> None \<and> workload env = Completed)"
proof (cases "\<exists>i. list_index (sys_argv env) (script_arg env) = Some i \<and> workload env = Completed")
  case True
  then obtain i where "list_index (sys_argv env) (script_arg env) = Some i"
    "workload env = Completed" by blast
  from singleton_events_completed [OF this] this show ?thesis by simp
next
  case False
  with singleton_events_only_when_completed [of p env]
    singleton_events_only_when_completed [of _ env n f]
  show ?thesis by auto
qed

theorem only_rank_zero_creates_outdir_and_reports_witness:
  "Mkdir ''results'' \<in> set (run_events rank0_env)
   \<and> PrintReport 0 ''json'' \<in> set (run_events rank0_env)
   \<and> rank rank0_env = 0
   \<and> Mkdir ''results'' \<notin> set (run_events rank1_env)
   \<and> PrintReport 0 ''json'' \<notin> set (run_events rank1_env)
   \<and> rank rank1_env \<noteq> 0"
proof -
  have d: "rank rank0_env = 0" "rank rank1_env = 1" "\<not> outdir_exists rank0_env"
    "run_id rank0_env = 0" "format rank0_env = ''json''" "workload rank0_env = Completed"
    "str (Path (outdir rank0_env)) = ''results''"
    by (simp_all add: rank1_env_def rank0_env_def path_simps)
  from only_rank_zero_creates_outdir_and_reports [of "''results''" rank0_env 0 "''json''"]
    only_rank_zero_creates_outdir_and_reports [of "''results''" rank1_env 0 "''json''"]
    rank0_index d
  show ?thesis by simp
qed

subsection \<open>Closing the backends\<close>

text \<open>
  Claim C8. In every run of the monitor command, after device resolution completes and
  before any worker is spawned, every backend handle in the registry is closed, and the
  orchestrator never touches a backend handle again: the run begins with the resolution
  and one close for each backend, in the order of the registry, and no later event is a
  backend event.
\<close>

theorem backends_closed_after_resolution:
  assumes "GetDeviceConfiguration bs \<in> set (run_events env)"
  shows "take (Suc (length (backends env))) (run_events env) =
           GetDeviceConfiguration (backends env) # map BackendClose (backends env)
       \<and> (\<forall>e \<in> set (drop (Suc (length (backends env))) (run_events env)). \<not> backend_event e)
       \<and> (\<forall>e \<in> set (take (Suc (length (backends env))) (run_events env)). \<not> worker_event e)"
proof -
  from assms obtain i where idx: "list_index (sys_argv env) (script_arg env) = Some i"
    by (rule resolution_reached)
  from run_after_setup [OF idx] obtain rest where
    ev: "run_events env =
           (GetDeviceConfiguration (backends env) # map BackendClose (backends env))
           @ (worker_start_events env
              @ Barrier # ExecScript (script_arg env) (drop i (sys_argv env)) # rest)"
    and nb: "\<forall>e \<in> set rest. \<not> backend_event e"
    by (auto simp: setup_events_def)
  have tk: "take (Suc (length (backends env))) (run_events env) =
           GetDeviceConfiguration (backends env) # map BackendClose (backends env)"
    unfolding ev by (simp del: append_Cons)
  have dr: "drop (Suc (length (backends env))) (run_events env) =
           worker_start_events env
              @ Barrier # ExecScript (script_arg env) (drop i (sys_argv env)) # rest"
    unfolding ev by (simp del: append_Cons)
  have "\<forall>e \<in> set (worker_start_events env). \<not> backend_event e"
    by (simp add: worker_start_events_def)
  with nb have "\<forall>e \<in> set (drop (Suc (length (backends env))) (run_events env)). \<not> backend_event e"
    unfolding dr by auto
  moreover have "\<forall>e \<in> set (take (Suc (length (backends env))) (run_events env)). \<not> worker_event e"
    unfolding tk by auto
  ultimately show ?thesis using tk by simp
qed

theorem backends_closed_after_resolution_witness:
  "GetDeviceConfiguration [''rapl'', ''nvml''] \<in> set (run_events rank0_env)
   \<and> take 3 (run_events rank0_env) =
       [GetDeviceConfiguration [''rapl'', ''nvml''], BackendClose ''rapl'', BackendClose ''nvml'']
   \<and> filter backend_event (drop 3 (run_events rank0_env)) = []"
proof -
  have d: "backends rank0_env = [''rapl'', ''nvml'']" by (simp add: rank0_env_def)
  have w: "workload rank0_env = Completed" by (simp add: rank0_env_def)
  have g: "GetDeviceConfiguration [''rapl'', ''nvml''] \<in> set (run_events rank0_env)"
    using monitor_completed(2) [OF rank0_index w] d by (simp add: setup_events_def)
  from backends_closed_after_resolution [OF g] g d
  show ?thesis by (simp add: numeral_3_eq_3 filter_empty_conv)
qed

subsection \<open>The path of the experiment record\<close>

lemma split_sep_components: "x \<in> set (split_sep sep s) \<Longrightarrow> sep \<notin> set x"
proof (induction s arbitrary: x)
  case Nil
  then show ?case by simp
next
  case (Cons c cs)
  then show ?case
    by (cases "split_sep sep cs") (auto split: if_splits)
qed

lemma split_sep_without_sep: "sep \<notin> set s \<Longrightarrow> split_sep sep s = [s]"
  by (induction s) auto

lemma name_without_slash: "CHR ''/'' \<notin> set (name (Path s))"
proof (cases "parts (Path s) = []")
  case True
  then show ?thesis by (simp add: name_def)
next
  case False
  then have "last (parts (Path s)) \<in> set (parts (Path s))" by simp
  then have "last (parts (Path s)) \<in> set (split_sep CHR ''/'' (snd (splitroot s)))"
    by (auto simp: Path_def split: prod.splits)
  from split_sep_components [OF this] False show ?thesis by (simp add: name_def)
qed

lemma set_replace_from: "set (replace_from s old []) \<subseteq> set s"
proof (induction s old "[] :: string" rule: replace_from.induct)
  case (1 old)
  then show ?case by simp
next
  case (2 c cs old)
  show ?case
  proof (cases "old \<noteq> [] \<and> startswith (c # cs) old")
    case True
    with 2(1) have "set (replace_from (drop (length old - 1) cs) old []) \<subseteq> set cs"
      using set_drop_subset [of "length old - 1" cs] by blast
    with True show ?thesis by auto
  next
    case False
    with 2(2) show ?thesis by auto
  qed
qed

lemma concat_singletons: "concat (map (\<lambda>c. [c]) s) = s"
  by (induction s) auto

lemma set_str_replace: "set (str_replace s old []) \<subseteq> set s"
  using set_replace_from [of s old] by (simp add: str_replace_def concat_singletons)

lemma Path_file_name:
  assumes "CHR ''/'' \<notin> set n"
  shows "Path (n @ ''.hdf5'') = PurePath [] [n @ ''.hdf5'']"
proof -
  have ns: "CHR ''/'' \<notin> set (n @ ''.hdf5'')" using assms by simp
  have "hd (n @ ''.hdf5'') \<noteq> CHR ''/''"
    using assms by (cases n) auto
  then have sr: "splitroot (n @ ''.hdf5'') = ([], n @ ''.hdf5'')"
    by (simp add: splitroot_def)
  have "length (n @ ''.hdf5'') \<noteq> length ''.''" by simp
  then have nd: "n @ ''.hdf5'' \<noteq> ''.''" by metis
  show ?thesis
    unfolding Path_def sr using split_sep_without_sep [OF ns] nd by simp
qed

lemma resultPath_parts:
  "resultPath env =
     PurePath (root (Path (outdir env)))
       (parts (Path (outdir env))
        @ [str_replace (name (Path (script env))) (suffix (Path (script env))) [] @ ''.hdf5''])"
proof -
  have "CHR ''/'' \<notin> set (str_replace (name (Path (script env))) (suffix (Path (script env))) [])"
    using set_str_replace name_without_slash by blast
  from Path_file_name [OF this] show ?thesis
    by (simp add: resultPath_def truediv_def)
qed

lemma opened_paths_append [simp]: "opened_paths (xs @ ys) = opened_paths xs @ opened_paths ys"
  by (induction xs rule: opened_paths.induct) auto

lemma opened_paths_phases [simp]:
  "opened_paths (setup_events env) = []" "opened_paths (collect_events env) = []"
  "opened_paths (mkdir_events env) = []" "opened_paths (persist_events env) = []"
  "opened_paths (report_events env) = []"
proof -
  have "opened_paths (map BackendClose bs) = []" for bs :: "backend list"
    by (induction bs) auto
  then show "opened_paths (setup_events env) = []"
    by (simp add: setup_events_def worker_start_events_def)
qed (simp_all add: phase_simps split: option.splits)

lemma opened_paths_run:
  "opened_paths (run_events env) =
     (if list_index (sys_argv env) (script_arg env) \<noteq> None \<and> workload env = Completed
      then [str (resultPath env)] else [])"
  by (cases env rule: run_events_cases) simp_all

text \<open>
  Claim C9. For every monitored script, the experiment record is written to
  \<open>outdir/<name>.hdf5\<close>, where \<open><name>\<close> is the file name of the script with every
  occurrence of its suffix string removed, not only the trailing extension: a script named
  \<open>a.py.b.py\<close> is persisted to \<open>a.b.hdf5\<close>. The storage is opened once, in the runs whose
  workload completes, at the path made of the components of the output directory and that
  file name.
\<close>

theorem record_path_drops_every_suffix_occurrence:
  "opened_paths (run_events env) =
     (if list_index (sys_argv env) (script_arg env) \<noteq> None \<and> workload env = Completed
      then [str (PurePath (root (Path (outdir env)))
                  (parts (Path (outdir env))
                   @ [str_replace (name (Path (script env))) (suffix (Path (script env))) []
                      @ ''.hdf5'']))]
      else [])"
  by (simp add: opened_paths_run resultPath_parts)

theorem record_path_drops_every_suffix_occurrence_witness:
  "list_index (sys_argv dotted_env) (script_arg dotted_env) \<noteq> None
   \<and> workload dotted_env = Completed
   \<and> name (Path (script dotted_env)) = ''a.py.b.py''
   \<and> suffix (Path (script dotted_env)) = ''.py''
   \<and> opened_paths (run_events dotted_env) = [''out/a.b.hdf5'']"
proof -
  have w: "workload dotted_env = Completed"
    by (simp add: dotted_env_def rank0_env_def)
  have n: "name (Path (script dotted_env)) = ''a.py.b.py''"
    by (simp add: dotted_env_def rank0_env_def path_simps)
  have sf: "suffix (Path (script dotted_env)) = ''.py''"
    by (simp add: dotted_env_def rank0_env_def path_simps)
  have r: "str_replace ''a.py.b.py'' ''.py'' [] = ''a.b''"
    by (simp add: str_replace_def)
  have o: "Path (outdir dotted_env) = PurePath [] [''out'']"
    by (simp add: dotted_env_def rank0_env_def path_simps)
  from record_path_drops_every_suffix_occurrence [of dotted_env] dotted_index w n sf r o
  show ?thesis by (simp add: str_def)
qed

subsection \<open>The arguments of the script\<close>

lemma list_index_None: "list_index xs x = None \<longleftrightarrow> x \<notin> set xs"
  by (induction xs) auto

lemma list_index_Some:
  "list_index xs x = Some i \<Longrightarrow> drop i xs = dropWhile (\<lambda>a. a \<noteq> x) xs"
  by (induction xs arbitrary: i) (auto split: if_splits)

lemma exec_script_in_events:
  assumes "list_index (sys_argv env) (script_arg env) = Some i"
  shows "ExecScript (script_arg env) (drop i (sys_argv env)) \<in> set (run_events env)
      \<and> argv (snd (monitor env)) = drop i (sys_argv env)
      \<and> run_result env \<noteq> Raised ValueError"
proof (cases "workload env")
  case Completed
  from monitor_completed(1,2,3) [OF assms Completed] show ?thesis by simp
next
  case RaisedException
  from monitor_exception(1,2,3) [OF assms RaisedException] show ?thesis by simp
next
  case (RaisedBaseException c)
  from monitor_base_exception(1,2,3) [OF assms RaisedBaseException] show ?thesis by simp
qed

text \<open>
  Claim C10. Before executing the workload, the monitor command rewrites \<open>sys.argv\<close> to
  begin at the first element equal to the normalized script path, so the workload
  observes itself as \<open>argv[0]\<close> followed by its own arguments; if no element of
  \<open>sys.argv\<close> equals that string, monitor raises ValueError before resolving devices or
  spawning any worker.
\<close>

theorem argv_starts_at_script_or_ValueError:
  "(script_arg env \<in> set (sys_argv env) \<longrightarrow>
      argv (snd (monitor env)) = dropWhile (\<lambda>a. a \<noteq> script_arg env) (sys_argv env)
      \<and> take 1 (argv (snd (monitor env))) = [script_arg env]
      \<and> ExecScript (script_arg env) (argv (snd (monitor env))) \<in> set (run_events env)
      \<and> run_result env \<noteq> Raised ValueError)
   \<and> (script_arg env \<notin> set (sys_argv env) \<longrightarrow>
      run_result env = Raised ValueError
      \<and> run_events env = []
      \<and> argv (snd (monitor env)) = sys_argv env)"
proof (cases "list_index (sys_argv env) (script_arg env)")
  case None
  then have "script_arg env \<notin> set (sys_argv env)" by (simp add: list_index_None)
  with monitor_no_script [OF None] show ?thesis
    by (simp add: run_result_def run_events_def init_state_def)
next
  case (Some i)
  then have m: "script_arg env \<in> set (sys_argv env)"
    using list_index_None [of "sys_argv env" "script_arg env"] by auto
  have "take 1 (dropWhile (\<lambda>a. a \<noteq> x) xs) = [x]" if "x \<in> set xs" for x :: string and xs
    using that by (induction xs) auto
  with m exec_script_in_events [OF Some] list_index_Some [OF Some] show ?thesis by simp
qed

theorem argv_starts_at_script_or_ValueError_witness:
  "script_arg rank0_env \<in> set (sys_argv rank0_env)
   \<and> argv (snd (monitor rank0_env)) = [''train.py'', ''--epochs'', ''3'']
   \<and> script_arg no_script_env \<notin> set (sys_argv no_script_env)
   \<and> run_result no_script_env = Raised ValueError
   \<and> run_events no_script_env = []"
proof -
  have a: "script_arg rank0_env = ''train.py''"
    "sys_argv rank0_env = [''perun'', ''monitor'', ''-f'', ''2'', ''train.py'', ''--epochs'', ''3'']"
    by (simp_all add: rank0_env_def path_simps)
  have b: "script_arg no_script_env = ''train.py''"
    "sys_argv no_script_env = [''perun'', ''monitor'', ''./train.py'']"
    by (simp_all add: no_script_env_def rank0_env_def path_simps)
  have m: "script_arg rank0_env \<in> set (sys_argv rank0_env)"
    "script_arg no_script_env \<notin> set (sys_argv no_script_env)"
    unfolding a b by simp_all
  from argv_starts_at_script_or_ValueError [of rank0_env]
    argv_starts_at_script_or_ValueError [of no_script_env] m
  show ?thesis unfolding a b by simp
qed

end
